theory Spec2Isabelle
  imports Complex_Main
begin

section \<open>JavaScript numbers as used by the pricing code\<close>

text \<open>
  The pricing code of \<^verbatim>\<open>models/Booking.js\<close> and \<^verbatim>\<open>models/Ticket.js\<close> computes with
  JavaScript numbers. They are modelled as exact reals plus the value \<open>NaN\<close>, which is
  what arithmetic on \<^verbatim>\<open>undefined\<close> produces. Rounding and overflow to infinity of IEEE
  doubles are not modelled. A schema path that may be absent is a \<open>real option\<close>;
  \<open>of_field\<close> reads it in a numeric context, where \<^verbatim>\<open>undefined\<close> behaves as \<open>NaN\<close>
  (falsy, every comparison false, absorbing in arithmetic and in \<^verbatim>\<open>Math.min\<close>).
\<close>

datatype jsnum = Num real | NaN

fun jadd :: "jsnum \<Rightarrow> jsnum \<Rightarrow> jsnum" where
  "jadd (Num a) (Num b) = Num (a + b)"
| "jadd _ _ = NaN"

fun jsub :: "jsnum \<Rightarrow> jsnum \<Rightarrow> jsnum" where
  "jsub (Num a) (Num b) = Num (a - b)"
| "jsub _ _ = NaN"

fun jmul :: "jsnum \<Rightarrow> jsnum \<Rightarrow> jsnum" where
  "jmul (Num a) (Num b) = Num (a * b)"
| "jmul _ _ = NaN"

text \<open>The only divisor in the code is the literal 100; a zero divisor is not reached.\<close>

fun jdiv :: "jsnum \<Rightarrow> jsnum \<Rightarrow> jsnum" where
  "jdiv (Num a) (Num b) = (if b = 0 then NaN else Num (a / b))"
| "jdiv _ _ = NaN"

fun truthy :: "jsnum \<Rightarrow> bool" where
  "truthy (Num a) = (a \<noteq> 0)"
| "truthy NaN = False"

definition js_or :: "jsnum \<Rightarrow> jsnum \<Rightarrow> jsnum" where
  "js_or a b = (if truthy a then a else b)"

fun jgt :: "jsnum \<Rightarrow> jsnum \<Rightarrow> bool" where
  "jgt (Num a) (Num b) = (a > b)"
| "jgt _ _ = False"

fun math_min :: "jsnum \<Rightarrow> jsnum \<Rightarrow> jsnum" where
  "math_min (Num a) (Num b) = Num (min a b)"
| "math_min _ _ = NaN"

fun math_max :: "jsnum \<Rightarrow> jsnum \<Rightarrow> jsnum" where
  "math_max (Num a) (Num b) = Num (max a b)"
| "math_max _ _ = NaN"

fun of_field :: "real option \<Rightarrow> jsnum" where
  "of_field (Some a) = Num a"
| "of_field None = NaN"

section \<open>Reservation documents (Booking and Ticket schemas)\<close>

datatype seat_type = Standard | Vip

datatype discount_type = Percent | Fixed

datatype reservation_status = Pending | Confirmed | Cancelled | Refunded | Expired

datatype payment_status = PayPending | PayCompleted | PayFailed | PayRefunded

record seat_line =
  seat_code :: string
  seat_kind :: seat_type
  seat_price :: real
  seat_row :: nat
  seat_column :: nat

text \<open>
  The combo lines of both schemas declare \<^verbatim>\<open>combo, name, quantity, price, image\<close>.
  Neither declares a path \<^verbatim>\<open>qty\<close> (the \<^verbatim>\<open>comboItemSchema\<close> at the top of Ticket.js that
  has one is never used by \<^verbatim>\<open>ticketSchema\<close>), so reading \<^verbatim>\<open>combo.qty\<close> gives
  \<^verbatim>\<open>undefined\<close>.
\<close>

record combo_line =
  combo_ref :: nat
  combo_name :: string
  quantity :: real
  combo_price :: real

definition qty :: "combo_line \<Rightarrow> real option" where
  "qty combo = None"

record voucher =
  voucher_code :: "string option"
  discountValue :: "real option"
  discountType :: discount_type
  maxDiscount :: "real option"
  minOrderValue :: "real option"

text \<open>
  One record serves both schemas: \<^verbatim>\<open>bookingSchema\<close> and \<^verbatim>\<open>ticketSchema\<close> declare the same
  paths for everything below. \<open>expiresAt\<close> is \<^verbatim>\<open>expiresAt\<close> of a booking and
  \<^verbatim>\<open>pendingExpiresAt\<close> of a ticket. The schedule of a reservation is its \<^verbatim>\<open>showtime\<close>; neither
  schema declares a path \<^verbatim>\<open>scheduleId\<close>. Times are milliseconds since the epoch.
\<close>

record reservation =
  doc_id :: nat
  user :: nat
  showtime :: nat
  seats :: "seat_line list"
  combos :: "combo_line list"
  voucher :: "voucher option"
  subtotal :: jsnum
  discount :: jsnum
  tax :: real
  serviceFee :: real
  totalAmount :: jsnum
  payment_state :: payment_status
  status :: reservation_status
  expiresAt :: int
  cancelledBy :: "nat option"
  cancelledAt :: "int option"
  cancellationReason :: "string option"

section \<open>Pricing\<close>

text \<open>
  The voucher block. It occurs verbatim three times: in \<^verbatim>\<open>calculateTotals\<close> of Booking.js
  (lines 213-223), in the first pre-save hook of Ticket.js (lines 255-265) and in
  \<^verbatim>\<open>calculateTotals\<close> of Ticket.js (lines 335-345). \<^verbatim>\<open>minOrderValue\<close> is not read.
\<close>

definition voucher_discount :: "voucher option \<Rightarrow> jsnum \<Rightarrow> jsnum" where
  "voucher_discount vo sub =
     (case vo of
        None \<Rightarrow> Num 0
      | Some v \<Rightarrow>
          if truthy (of_field (discountValue v)) then
            (if discountType v = Percent then
               (let d = jdiv (jmul sub (of_field (discountValue v))) (Num 100)
                in if truthy (of_field (maxDiscount v)) \<and> jgt d (of_field (maxDiscount v))
                   then of_field (maxDiscount v) else d)
             else math_min (of_field (discountValue v)) sub)
          else Num 0)"

text \<open>\<^verbatim>\<open>calculateTotals\<close>, the same text in Booking.js (202-232) and Ticket.js (324-354).\<close>

definition calculateTotals :: "reservation \<Rightarrow> reservation" where
  "calculateTotals this =
     (let seatsSubtotal =
            foldl (\<lambda>sum seat. jadd sum (js_or (Num (seat_price seat)) (Num 0))) (Num 0) (seats this);
          combosSubtotal =
            foldl (\<lambda>sum combo.
                     jadd sum (js_or (jmul (Num (combo_price combo)) (Num (quantity combo))) (Num 0)))
                  (Num 0) (combos this);
          sub = jadd seatsSubtotal combosSubtotal;
          disc = voucher_discount (voucher this) sub;
          total = jadd (jadd (jsub sub disc) (js_or (Num (tax this)) (Num 0)))
                       (js_or (Num (serviceFee this)) (Num 0))
      in this\<lparr>subtotal := sub, discount := disc, totalAmount := math_max (Num 0) total\<rparr>)"

text \<open>What a save knows about the document: \<^verbatim>\<open>isNew\<close> and \<^verbatim>\<open>isModified(path)\<close>.\<close>

record save_flags =
  isNew :: bool
  modified_seats :: bool
  modified_combos :: bool
  modified_voucher :: bool

text \<open>The pre-save hook of Booking.js (193-199).\<close>

definition booking_pre_save :: "save_flags \<Rightarrow> reservation \<Rightarrow> reservation" where
  "booking_pre_save fl this =
     (if isNew fl \<or> modified_seats fl \<or> modified_combos fl then calculateTotals this else this)"

text \<open>
  Assignment to a path of type Number: the cast of \<open>NaN\<close> fails, the assignment is refused
  and the path keeps the value it had.
\<close>

definition assign_number :: "jsnum \<Rightarrow> jsnum \<Rightarrow> jsnum" where
  "assign_number old new = (case new of Num x \<Rightarrow> Num x | NaN \<Rightarrow> old)"

text \<open>
  The first pre-save hook of Ticket.js (247-272): no tax, no fee, no clamp, and \<^verbatim>\<open>combo.qty\<close>.
  The voucher block and the total read \<^verbatim>\<open>this.subtotal\<close> and \<^verbatim>\<open>this.discount\<close> after the
  assignments.
\<close>

definition ticket_totals_hook :: "save_flags \<Rightarrow> reservation \<Rightarrow> reservation" where
  "ticket_totals_hook fl this =
     (if isNew fl \<or> modified_seats fl \<or> modified_combos fl \<or> modified_voucher fl then
        (let seatTotal = foldl (\<lambda>sum seat. jadd sum (Num (seat_price seat))) (Num 0) (seats this);
             comboTotal =
               foldl (\<lambda>sum combo. jadd sum (jmul (Num (combo_price combo)) (of_field (qty combo))))
                     (Num 0) (combos this);
             this1 = this\<lparr>subtotal := assign_number (subtotal this) (jadd seatTotal comboTotal)\<rparr>;
             disc = voucher_discount (voucher this1) (subtotal this1);
             this2 = this1\<lparr>discount := assign_number (discount this1) disc\<rparr>
         in this2\<lparr>totalAmount :=
                    assign_number (totalAmount this2) (jsub (subtotal this2) (discount this2))\<rparr>)
      else this)"

text \<open>The third pre-save hook of Ticket.js (315-321).\<close>

definition ticket_defaults_hook :: "save_flags \<Rightarrow> reservation \<Rightarrow> reservation" where
  "ticket_defaults_hook fl this =
     (if isNew fl \<or> modified_seats fl \<or> modified_combos fl then calculateTotals this else this)"

text \<open>
  The hooks of a ticket run in the order of their registration. The second one (275-283)
  only assigns \<^verbatim>\<open>qrCode\<close>, which is not part of this model.
\<close>

definition ticket_pre_save :: "save_flags \<Rightarrow> reservation \<Rightarrow> reservation" where
  "ticket_pre_save fl this = ticket_defaults_hook fl (ticket_totals_hook fl this)"

text \<open>The pricing rule in the words of the specification, for defined inputs.\<close>

definition spec_subtotal :: "reservation \<Rightarrow> real" where
  "spec_subtotal r =
     (\<Sum>s\<leftarrow>seats r. seat_price s) + (\<Sum>c\<leftarrow>combos r. combo_price c * quantity c)"

definition spec_total :: "real \<Rightarrow> real \<Rightarrow> real \<Rightarrow> real \<Rightarrow> real" where
  "spec_total sub disc tx fee = max 0 (sub - disc + tx + fee)"

definition spec_discount :: "voucher \<Rightarrow> real \<Rightarrow> real" where
  "spec_discount v sub =
     (let dv = (case discountValue v of Some x \<Rightarrow> x | None \<Rightarrow> 0)
      in if discountType v = Percent then
           (case maxDiscount v of
              Some m \<Rightarrow> min (sub * dv / 100) m
            | None \<Rightarrow> sub * dv / 100)
         else min dv sub)"


section \<open>Cancelling a reservation\<close>

datatype js_error = Error string | ValidationError string

definition unchanged_flags :: save_flags where
  "unchanged_flags =
     \<lparr>isNew = False, modified_seats = False, modified_combos = False, modified_voucher = False\<rparr>"

text \<open>
  \<^verbatim>\<open>save()\<close> validates the document before the pre-save hooks run, the paths it loaded
  included. These are the \<^verbatim>\<open>min\<close> validators both schemas declare on their numeric paths;
  a required amount that is not a number fails as well.
\<close>

definition min_ok :: "real \<Rightarrow> jsnum \<Rightarrow> bool" where
  "min_ok lo x = (case x of Num a \<Rightarrow> lo \<le> a | NaN \<Rightarrow> False)"

definition optional_min_ok :: "real option \<Rightarrow> bool" where
  "optional_min_ok x = (case x of Some a \<Rightarrow> 0 \<le> a | None \<Rightarrow> True)"

definition schema_valid :: "reservation \<Rightarrow> bool" where
  "schema_valid d =
     (list_all (\<lambda>s. 0 \<le> seat_price s) (seats d)
      \<and> list_all (\<lambda>c. 1 \<le> quantity c \<and> 0 \<le> combo_price c) (combos d)
      \<and> (case voucher d of
            None \<Rightarrow> True
          | Some v \<Rightarrow> optional_min_ok (discountValue v) \<and> optional_min_ok (maxDiscount v)
                      \<and> optional_min_ok (minOrderValue v))
      \<and> min_ok 0 (subtotal d) \<and> min_ok 0 (discount d)
      \<and> 0 \<le> tax d \<and> 0 \<le> serviceFee d
      \<and> min_ok 0 (totalAmount d))"


text \<open>
  \<^verbatim>\<open>cancel\<close> of Ticket.js (357-375). It never touches the payment. The ticket schema
  also limits \<^verbatim>\<open>cancellationReason\<close> to 500 characters.
\<close>

definition ticket_cancel :: "reservation \<Rightarrow> nat \<Rightarrow> string \<Rightarrow> int \<Rightarrow> js_error + reservation" where
  "ticket_cancel this userId reason now =
     (if status this = Cancelled then Inl (Error ''Ticket is already cancelled'')
      else
        (let this1 = this\<lparr>status := Cancelled, cancellationReason := Some reason,
                          cancelledBy := Some userId, cancelledAt := Some now\<rparr>
         in if schema_valid this1 \<and> length reason \<le> 500
            then Inr (ticket_pre_save unchanged_flags this1)
            else Inl (ValidationError ''Ticket validation failed'')))"


section \<open>Declared indexes and the holders of a seat\<close>

text \<open>
  An index as a schema declares it: the paths of its key, whether it is unique, and the
  partial filter, if any, as path, operator and value.
\<close>

record index_decl =
  key_paths :: "string list"
  is_unique :: bool
  partial_filter :: "(string \<times> string \<times> string) option"

text \<open>
  The indexes of \<^verbatim>\<open>bookingSchema\<close>: the path options \<^verbatim>\<open>status\<close> (139), \<^verbatim>\<open>qrCode\<close> (141-145)
  and \<^verbatim>\<open>expiresAt\<close> (154), and the calls of \<^verbatim>\<open>bookingSchema.index\<close> (Booking.js 171-190).
\<close>

definition bookingSchema_indexes :: "index_decl list" where
  "bookingSchema_indexes =
     [\<lparr>key_paths = [''status''], is_unique = False, partial_filter = None\<rparr>,
      \<lparr>key_paths = [''qrCode''], is_unique = True, partial_filter = None\<rparr>,
      \<lparr>key_paths = [''expiresAt''], is_unique = False, partial_filter = None\<rparr>,
      \<lparr>key_paths = [''user'', ''status''], is_unique = False, partial_filter = None\<rparr>,
      \<lparr>key_paths = [''showtime'', ''status''], is_unique = False, partial_filter = None\<rparr>,
      \<lparr>key_paths = [''payment.transactionId''], is_unique = True, partial_filter = None\<rparr>,
      \<lparr>key_paths = [''createdAt''], is_unique = False, partial_filter = None\<rparr>,
      \<lparr>key_paths = [''expiresAt''], is_unique = False, partial_filter = None\<rparr>,
      \<lparr>key_paths = [''payment.transactionId'', ''voucher.code''], is_unique = False,
       partial_filter = None\<rparr>]"

text \<open>
  The index of Ticket.js (231-240), under the comment
  \<^verbatim>\<open>Index to prevent double booking of seats for the same schedule\<close>.
\<close>

definition ticket_seat_index :: index_decl where
  "ticket_seat_index =
     \<lparr>key_paths = [''scheduleId'', ''seats.code''], is_unique = True,
      partial_filter = Some (''status'', ''$ne'', ''cancelled'')\<rparr>"

text \<open>The top-level paths that \<^verbatim>\<open>ticketSchema\<close> declares (Ticket.js 45-221).\<close>

definition ticketSchema_paths :: "string list" where
  "ticketSchema_paths =
     [''user'', ''showtime'', ''movie'', ''theater'', ''room'', ''seats'', ''combos'', ''voucher'',
      ''subtotal'', ''discount'', ''tax'', ''serviceFee'', ''totalAmount'', ''payment'', ''status'',
      ''paymentStatus'', ''qrCode'', ''checkInTime'', ''notes'', ''cancellationReason'',
      ''cancelledBy'', ''cancelledAt'', ''pendingExpiresAt'']"

definition guards_seats :: "index_decl \<Rightarrow> bool" where
  "guards_seats ix = (is_unique ix \<and> ''seats.code'' \<in> set (key_paths ix))"

text \<open>An active reservation in the words of the specification, and the holders of a seat.\<close>

definition active :: "reservation \<Rightarrow> bool" where
  "active t = (status t \<noteq> Cancelled \<and> status t \<noteq> Expired)"

definition holders :: "reservation list \<Rightarrow> nat \<Rightarrow> string \<Rightarrow> reservation list" where
  "holders docs showtimeId c =
     filter (\<lambda>t. active t \<and> showtime t = showtimeId \<and> c \<in> seat_code ` set (seats t)) docs"

section \<open>Rooms and their seat map\<close>

datatype seat_state = Available | Maintenance

record room_seat =
  rs_code :: string
  rs_kind :: seat_type
  rs_status :: seat_state
  rs_row :: nat
  rs_column :: nat

text \<open>
  \<^verbatim>\<open>rows\<close>, \<^verbatim>\<open>seatsPerRow\<close> and \<^verbatim>\<open>capacity\<close> are paths of type Number; the schema only
  asks that \<^verbatim>\<open>rows\<close> and \<^verbatim>\<open>seatsPerRow\<close> be at least 1, so they need not be whole.
\<close>

record room =
  room_id :: nat
  room_theater :: nat
  rows :: real
  seatsPerRow :: real
  capacity :: real
  room_seats :: "room_seat list"

definition alphabet :: string where
  "alphabet = ''ABCDEFGHIJKLMNOPQRSTUVWXYZ''"

text \<open>The decimal text that a template literal gives a non-negative integer.\<close>

definition digit_char :: "nat \<Rightarrow> char" where
  "digit_char d = ''0123456789'' ! d"

fun string_of_nat :: "nat \<Rightarrow> string" where
  "string_of_nat n =
     (if n < 10 then [digit_char n] else string_of_nat (n div 10) @ [digit_char (n mod 10)])"

declare string_of_nat.simps [simp del]

definition make_seat :: "nat \<Rightarrow> nat \<Rightarrow> room_seat" where
  "make_seat row col =
     (let rowLetter = alphabet ! (row mod length alphabet);
          vipRows = 2;
          isVip = row < vipRows
      in \<lparr>rs_code = rowLetter # string_of_nat col,
          rs_kind = (if isVip then Vip else Standard),
          rs_status = Available,
          rs_row = row,
          rs_column = col - 1\<rparr>)"

text \<open>
  The inner loop of \<^verbatim>\<open>generateSeatMap\<close> (Room.js 113-121): the counter \<^verbatim>\<open>col\<close> starts at 1
  and runs while \<^verbatim>\<open>col <= this.seatsPerRow\<close>.
\<close>

function col_loop :: "real \<Rightarrow> nat \<Rightarrow> nat \<Rightarrow> room_seat list \<Rightarrow> room_seat list" where
  "col_loop spr row col acc =
     (if real col \<le> spr then col_loop spr row (Suc col) (acc @ [make_seat row col]) else acc)"
  by pat_completeness auto
termination
  by (relation "measure (\<lambda>(spr, row, col, acc). Suc (nat \<lfloor>spr\<rfloor>) - col)")
    (auto simp: le_nat_floor Suc_diff_le)

declare col_loop.simps [simp del]

text \<open>
  The outer loop (Room.js 109-122): the counter \<^verbatim>\<open>row\<close> starts at 0 and runs while
  \<^verbatim>\<open>row < this.rows\<close>.
\<close>

function row_loop :: "real \<Rightarrow> real \<Rightarrow> nat \<Rightarrow> room_seat list \<Rightarrow> room_seat list" where
  "row_loop n spr row acc =
     (if real row < n then row_loop n spr (Suc row) (col_loop spr row 1 acc) else acc)"
  by pat_completeness auto
termination
proof (relation "measure (\<lambda>(n, spr, row, acc). nat \<lceil>n\<rceil> - row)")
  show "wf (measure (\<lambda>(n, spr, row, acc). nat \<lceil>n\<rceil> - row))"
    by simp
next
  fix n spr :: real and row :: nat and acc :: "room_seat list"
  assume "real row < n"
  then have "int row < \<lceil>n\<rceil>"
    by (simp add: less_ceiling_iff)
  then show "((n, spr, Suc row, col_loop spr row 1 acc), (n, spr, row, acc))
               \<in> measure (\<lambda>(n, spr, row, acc). nat \<lceil>n\<rceil> - row)"
    by simp
qed

declare row_loop.simps [simp del]

definition generateSeatMap :: "room \<Rightarrow> room_seat list" where
  "generateSeatMap this = row_loop (rows this) (seatsPerRow this) 0 []"

text \<open>
  The pre-save hook of Room.js (93-99). \<open>is_new\<close> is \<^verbatim>\<open>this.isNew\<close>, \<open>dims_modified\<close> is
  \<^verbatim>\<open>this.isModified(['rows', 'seatsPerRow'])\<close>.
\<close>

definition room_pre_save :: "bool \<Rightarrow> bool \<Rightarrow> room \<Rightarrow> room" where
  "room_pre_save is_new dims_modified this =
     (if is_new \<or> dims_modified
      then this\<lparr>room_seats := generateSeatMap this, capacity := rows this * seatsPerRow this\<rparr>
      else this)"

section \<open>Seat availability\<close>

record showtime_doc =
  st_id :: nat
  st_room :: nat

text \<open>
  \<^verbatim>\<open>getAvailableSeats\<close> of Booking.js (346-375). The virtual \<^verbatim>\<open>bookings\<close> of a showtime
  refers to the Ticket collection by the path \<^verbatim>\<open>showtime\<close>; the populate keeps the tickets
  whose status is confirmed or pending and whose payment status is not refunded.
  Neither \<^verbatim>\<open>expiresAt\<close> nor the clock is read.
\<close>

definition getAvailableSeats ::
  "showtime_doc list \<Rightarrow> room list \<Rightarrow> reservation list \<Rightarrow> nat \<Rightarrow> js_error + (room_seat \<times> bool) list" where
  "getAvailableSeats showtimes rooms tickets showtimeId =
     (case find (\<lambda>st. st_id st = showtimeId) showtimes of
        None \<Rightarrow> Inl (Error ''Showtime or room not found'')
      | Some st \<Rightarrow>
          (case find (\<lambda>r. room_id r = st_room st) rooms of
             None \<Rightarrow> Inl (Error ''Showtime or room not found'')
           | Some r \<Rightarrow>
               (let bookings = filter (\<lambda>b. showtime b = showtimeId
                                         \<and> (status b = Confirmed \<or> status b = Pending)
                                         \<and> payment_state b \<noteq> PayRefunded) tickets;
                    bookedSeats = concat (map (\<lambda>booking. map seat_code (seats booking)) bookings)
                in Inr (map (\<lambda>seat. (seat, rs_code seat \<notin> set bookedSeats \<and> rs_status seat = Available))
                            (room_seats r)))))"

text \<open>
  \<^verbatim>\<open>getAvailableSeats\<close> of Room.js (128-152). It asks for the statuses \<^verbatim>\<open>'booked'\<close> and
  \<^verbatim>\<open>'confirmed'\<close>; the ticket schema has no status \<^verbatim>\<open>'booked'\<close>, so only confirmed tickets
  match. An empty seat code is falsy and is skipped. The flag of the result is true when
  the returned status is \<^verbatim>\<open>'available'\<close>.
\<close>

definition room_getAvailableSeats :: "room \<Rightarrow> reservation list \<Rightarrow> nat \<Rightarrow> (room_seat \<times> bool) list" where
  "room_getAvailableSeats this tickets showtimeId =
     (let bookedTickets = filter (\<lambda>t. showtime t = showtimeId \<and> status t = Confirmed) tickets;
          bookedSeats = concat (map (\<lambda>ticket. filter (\<lambda>c. c \<noteq> []) (map seat_code (seats ticket)))
                                    bookedTickets)
      in map (\<lambda>seat. (seat, rs_code seat \<notin> set bookedSeats)) (room_seats this))"

text \<open>
  The rule of the specification: a seat is taken when a confirmed reservation, or a
  pending one whose \<^verbatim>\<open>expiresAt\<close> has not passed, on the showtime contains its code.
\<close>

definition spec_taken :: "int \<Rightarrow> reservation list \<Rightarrow> nat \<Rightarrow> string \<Rightarrow> bool" where
  "spec_taken now tickets showtimeId c =
     list_ex (\<lambda>t. showtime t = showtimeId
                \<and> (status t = Confirmed \<or> (status t = Pending \<and> now < expiresAt t))
                \<and> c \<in> seat_code ` set (seats t)) tickets"

section \<open>The schedule controller\<close>

record schedule =
  sched_id :: nat
  sched_movie :: nat
  sched_theater :: nat
  sched_room :: nat
  startTime :: int
  endTime :: int
  sched_price :: real
  is3d :: bool
  hasSubtitles :: bool
  isDubbed :: bool
  isActive :: bool
  createdBy :: nat

text \<open>
  The Schedule model (\<^verbatim>\<open>models/Schedule.js\<close>) is not among the sources. What the controller
  needs of it is a parameter: whether the model's validators accept a document, and the
  default of \<^verbatim>\<open>isActive\<close>, a path the controller never sets on creation.
\<close>

record schedule_model =
  validates :: "schedule \<Rightarrow> bool"
  isActive_default :: bool

record database =
  movies :: "nat list"
  theaters :: "nat list"
  rooms :: "room list"
  schedules :: "schedule list"

datatype http_error =
    NotFound string
  | ScheduleConflict
  | HasBookings
  | ServerError

text \<open>
  The body of a create request after the route's validators: identifiers, two ISO 8601
  instants read by \<^verbatim>\<open>new Date\<close>, a price, three flags whose default is false.
\<close>

record create_body =
  movieId :: nat
  theaterId :: nat
  roomId :: nat
  new_startTime :: int
  new_endTime :: int
  new_price :: real
  new_is3d :: bool
  new_hasSubtitles :: bool
  new_isDubbed :: bool

text \<open>
  \<^verbatim>\<open>createSchedule\<close> (scheduleController.js 11-95). The conflict query has no condition on
  \<^verbatim>\<open>isActive\<close>. \<open>new_id\<close> is the identifier the new document gets, \<open>uid\<close> is
  \<^verbatim>\<open>req.user.id\<close>. An exception of \<^verbatim>\<open>save()\<close> ends in the catch block, status 500.
\<close>

definition createSchedule ::
  "schedule_model \<Rightarrow> nat \<Rightarrow> nat \<Rightarrow> database \<Rightarrow> create_body \<Rightarrow> http_error + (schedule \<times> database)" where
  "createSchedule M new_id uid db body =
     (if movieId body \<notin> set (movies db) then Inl (NotFound ''Movie not found'')
      else if theaterId body \<notin> set (theaters db) then Inl (NotFound ''Theater not found'')
      else
        (case find (\<lambda>r. room_id r = roomId body \<and> room_theater r = theaterId body) (rooms db) of
           None \<Rightarrow> Inl (NotFound ''Room not found in this theater'')
         | Some r \<Rightarrow>
             (case find (\<lambda>s. sched_room s = roomId body
                             \<and> startTime s < new_endTime body
                             \<and> endTime s > new_startTime body) (schedules db) of
                Some conflict \<Rightarrow> Inl ScheduleConflict
              | None \<Rightarrow>
                  (let schedule = \<lparr>sched_id = new_id,
                                   sched_movie = movieId body,
                                   sched_theater = theaterId body,
                                   sched_room = roomId body,
                                   startTime = new_startTime body,
                                   endTime = new_endTime body,
                                   sched_price = new_price body,
                                   is3d = new_is3d body,
                                   hasSubtitles = new_hasSubtitles body,
                                   isDubbed = new_isDubbed body,
                                   isActive = isActive_default M,
                                   createdBy = uid\<rparr>
                   in if validates M schedule
                      then Inr (schedule, db\<lparr>schedules := schedules db @ [schedule]\<rparr>)
                      else Inl ServerError))))"

text \<open>The body of an update request: every path is optional.\<close>

record update_body =
  body_startTime :: "int option"
  body_endTime :: "int option"
  body_roomId :: "nat option"
  body_price :: "real option"
  body_is3d :: "bool option"
  body_hasSubtitles :: "bool option"
  body_isDubbed :: "bool option"
  body_isActive :: "bool option"

definition or_else :: "'a option \<Rightarrow> 'a \<Rightarrow> 'a" where
  "or_else x d = (case x of Some v \<Rightarrow> v | None \<Rightarrow> d)"

text \<open>
  \<^verbatim>\<open>updateSchedule\<close> (scheduleController.js 217-286). The conflict query excludes the
  schedule's own \<^verbatim>\<open>_id\<close> and, again, does not look at \<^verbatim>\<open>isActive\<close>. \<^verbatim>\<open>roomId\<close> takes part
  in the check but is not among \<^verbatim>\<open>allowedUpdates\<close>.
\<close>

definition updateSchedule ::
  "schedule_model \<Rightarrow> database \<Rightarrow> nat \<Rightarrow> update_body \<Rightarrow> http_error + (schedule \<times> database)" where
  "updateSchedule M db ident body =
     (case find (\<lambda>s. sched_id s = ident) (schedules db) of
        None \<Rightarrow> Inl (NotFound ''Schedule not found'')
      | Some schedule \<Rightarrow>
          (let start = or_else (body_startTime body) (startTime schedule);
               end' = or_else (body_endTime body) (endTime schedule);
               room' = or_else (body_roomId body) (sched_room schedule);
               conflict =
                 (if body_startTime body \<noteq> None \<or> body_endTime body \<noteq> None \<or> body_roomId body \<noteq> None
                  then find (\<lambda>s. sched_id s \<noteq> sched_id schedule
                                 \<and> sched_room s = room'
                                 \<and> startTime s < end'
                                 \<and> endTime s > start) (schedules db)
                  else None)
           in case conflict of
                Some c \<Rightarrow> Inl ScheduleConflict
              | None \<Rightarrow>
                  (let updated = schedule\<lparr>
                         startTime := or_else (body_startTime body) (startTime schedule),
                         endTime := or_else (body_endTime body) (endTime schedule),
                         sched_price := or_else (body_price body) (sched_price schedule),
                         is3d := or_else (body_is3d body) (is3d schedule),
                         hasSubtitles := or_else (body_hasSubtitles body) (hasSubtitles schedule),
                         isDubbed := or_else (body_isDubbed body) (isDubbed schedule),
                         isActive := or_else (body_isActive body) (isActive schedule)\<rparr>
                   in if validates M updated
                      then Inr (updated,
                                db\<lparr>schedules := map (\<lambda>s. if sched_id s = ident then updated else s)
                                                     (schedules db)\<rparr>)
                      else Inl ServerError)))"

text \<open>
  The names bound at the top of scheduleController.js (lines 1-6). \<^verbatim>\<open>Booking\<close> is not one of
  them and nothing else in the module declares it, so evaluating \<^verbatim>\<open>Booking\<close> throws a
  ReferenceError.
\<close>

definition scheduleController_scope :: "string list" where
  "scheduleController_scope =
     [''Schedule'', ''Movie'', ''Theater'', ''Room'', ''validationResult'', ''moment'']"

text \<open>
  \<^verbatim>\<open>deleteSchedule\<close> (scheduleController.js 291-331). \<open>countDocuments\<close> stands for
  \<^verbatim>\<open>Booking.countDocuments({ schedule: schedule._id })\<close>. The ReferenceError is caught by
  the catch block; its \<^verbatim>\<open>kind\<close> is not \<^verbatim>\<open>'ObjectId'\<close>, so the answer is status 500.
\<close>

definition deleteSchedule ::
  "(nat \<Rightarrow> nat) \<Rightarrow> database \<Rightarrow> nat \<Rightarrow> http_error + database" where
  "deleteSchedule countDocuments db ident =
     (case find (\<lambda>s. sched_id s = ident) (schedules db) of
        None \<Rightarrow> Inl (NotFound ''Schedule not found'')
      | Some schedule \<Rightarrow>
          if ''Booking'' \<notin> set scheduleController_scope then Inl ServerError
          else
            (let bookingCount = countDocuments (sched_id schedule)
             in if bookingCount > 0 then Inl HasBookings
                else Inr (db\<lparr>schedules := filter (\<lambda>s. sched_id s \<noteq> sched_id schedule)
                                                  (schedules db)\<rparr>)))"

text \<open>The overlap test of the specification: two half-open intervals meet.\<close>

definition overlaps :: "int \<Rightarrow> int \<Rightarrow> schedule \<Rightarrow> bool" where
  "overlaps start end' existing = (startTime existing < end' \<and> endTime existing > start)"

text \<open>
  The conflict rule in the words of the specification: only active schedules of the room
  count, and an update leaves the schedule's own identifier out.
\<close>

definition spec_create_conflict :: "database \<Rightarrow> create_body \<Rightarrow> bool" where
  "spec_create_conflict db body =
     list_ex (\<lambda>s. isActive s \<and> sched_room s = roomId body
                 \<and> overlaps (new_startTime body) (new_endTime body) s) (schedules db)"

definition spec_update_conflict :: "database \<Rightarrow> schedule \<Rightarrow> update_body \<Rightarrow> bool" where
  "spec_update_conflict db own body =
     list_ex (\<lambda>s. isActive s \<and> sched_id s \<noteq> sched_id own
                 \<and> sched_room s = or_else (body_roomId body) (sched_room own)
                 \<and> overlaps (or_else (body_startTime body) (startTime own))
                            (or_else (body_endTime body) (endTime own)) s) (schedules db)"

section \<open>Sample documents and auxiliary predicates\<close>

text \<open>
  Concrete documents, requests and databases on which the code is evaluated below, and the
  row-major grid of seats.
\<close>

definition priced_seat :: "string \<Rightarrow> real \<Rightarrow> seat_line" where
  "priced_seat c p =
     \<lparr>seat_code = c, seat_kind = Standard, seat_price = p, seat_row = 0, seat_column = 0\<rparr>"

definition sample_reservation :: reservation where
  "sample_reservation =
     \<lparr>doc_id = 1, user = 1, showtime = 1,
      seats = [priced_seat ''A1'' 100], combos = [], voucher = None,
      subtotal = Num 100, discount = Num 0, tax = 0, serviceFee = 0, totalAmount = Num 100,
      payment_state = PayPending, status = Pending, expiresAt = 600000,
      cancelledBy = None, cancelledAt = None, cancellationReason = None\<rparr>"

definition fixed_voucher :: "real \<Rightarrow> real option \<Rightarrow> voucher" where
  "fixed_voucher dv mo =
     \<lparr>voucher_code = Some ''OFF'', discountValue = Some dv, discountType = Fixed,
      maxDiscount = None, minOrderValue = mo\<rparr>"

definition percent_voucher :: "real \<Rightarrow> real option \<Rightarrow> voucher" where
  "percent_voucher dv cap =
     \<lparr>voucher_code = Some ''SAVE10'', discountValue = Some dv, discountType = Percent,
      maxDiscount = cap, minOrderValue = None\<rparr>"

definition voucher_only :: save_flags where
  "voucher_only =
     \<lparr>isNew = False, modified_seats = False, modified_combos = False, modified_voucher = True\<rparr>"

definition creating :: save_flags where
  "creating =
     \<lparr>isNew = True, modified_seats = False, modified_combos = False, modified_voucher = False\<rparr>"

definition taxed_ticket :: reservation where
  "taxed_ticket = sample_reservation\<lparr>voucher := Some (fixed_voucher 20 None), tax := 10, serviceFee := 5\<rparr>"

definition popcorn :: combo_line where
  "popcorn = \<lparr>combo_ref = 1, combo_name = ''Popcorn'', quantity = 2, combo_price = 50\<rparr>"

definition uncapped_booking :: reservation where
  "uncapped_booking =
     sample_reservation\<lparr>seats := [priced_seat ''A1'' 1000], voucher := Some (percent_voucher 10 (Some 0))\<rparr>"

definition save10_booking :: reservation where
  "save10_booking =
     sample_reservation\<lparr>seats := [priced_seat ''A1'' 500000, priced_seat ''A2'' 500000],
                         voucher := Some (percent_voucher 10 (Some 50000))\<rparr>"




definition overdiscounted_ticket :: reservation where
  "overdiscounted_ticket =
     ticket_pre_save voucher_only (sample_reservation\<lparr>voucher := Some (percent_voucher 150 None)\<rparr>)"

definition hour :: "int \<Rightarrow> int" where
  "hour h = h * 3600000"

definition show_in_room :: "nat \<Rightarrow> nat \<Rightarrow> int \<Rightarrow> int \<Rightarrow> bool \<Rightarrow> schedule" where
  "show_in_room i r s e a =
     \<lparr>sched_id = i, sched_movie = 1, sched_theater = 1, sched_room = r,
      startTime = s, endTime = e, sched_price = 90000,
      is3d = False, hasSubtitles = False, isDubbed = False, isActive = a, createdBy = 1\<rparr>"

definition small_room :: room where
  "small_room =
     \<lparr>room_id = 1, room_theater = 1, rows = 1, seatsPerRow = 2, capacity = 2,
      room_seats = [make_seat 0 1, make_seat 0 2]\<rparr>"

definition retired_show_db :: database where
  "retired_show_db =
     \<lparr>movies = [1], theaters = [1], rooms = [small_room],
      schedules = [show_in_room 1 1 (hour 10) (hour 12) False]\<rparr>"

definition request_at :: "int \<Rightarrow> int \<Rightarrow> create_body" where
  "request_at s e =
     \<lparr>movieId = 1, theaterId = 1, roomId = 1, new_startTime = s, new_endTime = e,
      new_price = 90000, new_is3d = False, new_hasSubtitles = False, new_isDubbed = False\<rparr>"

definition lenient_model :: schedule_model where
  "lenient_model = \<lparr>validates = (\<lambda>s. True), isActive_default = True\<rparr>"

definition active_show_db :: database where
  "active_show_db =
     \<lparr>movies = [1], theaters = [1], rooms = [small_room],
      schedules = [show_in_room 1 1 (hour 10) (hour 12) True]\<rparr>"

definition no_change :: update_body where
  "no_change =
     \<lparr>body_startTime = None, body_endTime = None, body_roomId = None, body_price = None,
      body_is3d = None, body_hasSubtitles = None, body_isDubbed = None, body_isActive = None\<rparr>"

definition two_show_db :: "bool \<Rightarrow> database" where
  "two_show_db a =
     \<lparr>movies = [1], theaters = [1], rooms = [small_room],
      schedules = [show_in_room 1 1 (hour 10) (hour 12) a,
                   show_in_room 2 1 (hour 14) (hour 16) True]\<rparr>"

definition evening_show :: showtime_doc where
  "evening_show = \<lparr>st_id = 1, st_room = 1\<rparr>"

definition stale_hold :: reservation where
  "stale_hold = sample_reservation\<lparr>status := Pending, expiresAt := 600000\<rparr>"

definition first_claim :: reservation where
  "first_claim = sample_reservation\<lparr>doc_id := 1, user := 1\<rparr>"

definition second_claim :: reservation where
  "second_claim = sample_reservation\<lparr>doc_id := 2, user := 2\<rparr>"

text \<open>
  The seats of \<open>R\<close> rows of \<open>C\<close> columns in row-major order; the loops of
  \<^verbatim>\<open>generateSeatMap\<close> are shown to produce this list.
\<close>

definition seat_grid :: "nat \<Rightarrow> nat \<Rightarrow> room_seat list" where
  "seat_grid R C = map (\<lambda>(r, c). make_seat r c) (List.product [0..<R] [1..<Suc C])"

definition split_level :: room where
  "split_level =
     \<lparr>room_id = 4, room_theater = 1, rows = 3 / 2, seatsPerRow = 2, capacity = 1, room_seats = []\<rparr>"

definition studio :: room where
  "studio =
     \<lparr>room_id = 2, room_theater = 1, rows = 2, seatsPerRow = 2, capacity = 1, room_seats = []\<rparr>"

definition long_hall :: room where
  "long_hall =
     \<lparr>room_id = 3, room_theater = 1, rows = 27, seatsPerRow = 1, capacity = 1, room_seats = []\<rparr>"

section \<open>Properties\<close>

lemma js_or_Num_zero: "js_or (Num x) (Num 0) = Num x"
  by (simp add: js_or_def)

lemma foldl_jadd_Num:
  "foldl (\<lambda>sum x. jadd sum (Num (f x))) (Num a) xs = Num (a + sum_list (map f xs))"
  by (induction xs arbitrary: a) (simp_all add: add.assoc)

text \<open>
  \<^verbatim>\<open>calculateTotals\<close> itself follows the pricing rule: the subtotal is the sum of the seat
  prices and of price times quantity of the combos.
\<close>

lemma calculateTotals_subtotal: "subtotal (calculateTotals r) = Num (spec_subtotal r)"
  by (simp add: calculateTotals_def Let_def js_or_Num_zero foldl_jadd_Num spec_subtotal_def)

lemma calculateTotals_discount:
  "discount (calculateTotals r) = voucher_discount (voucher r) (Num (spec_subtotal r))"
  by (simp add: calculateTotals_def Let_def js_or_Num_zero foldl_jadd_Num spec_subtotal_def)

lemma voucher_discount_not_NaN: "voucher_discount vo (Num s) \<noteq> NaN"
proof (cases vo)
  case None
  then show ?thesis by (simp add: voucher_discount_def)
next
  case (Some v)
  then show ?thesis
    by (cases "discountValue v"; cases "maxDiscount v") (simp_all add: voucher_discount_def Let_def)
qed

lemma voucher_discount_Num: "\<exists>d. voucher_discount vo (Num s) = Num d"
  using voucher_discount_not_NaN [of vo s] by (cases "voucher_discount vo (Num s)") auto


lemma voucher_discount_applied:
  assumes "discountValue v = Some dv" "dv \<noteq> 0"
  shows "voucher_discount (Some v) (Num s) =
     Num (if discountType v = Percent then
            (case maxDiscount v of
               Some m \<Rightarrow> if m \<noteq> 0 then min (s * dv / 100) m else s * dv / 100
             | None \<Rightarrow> s * dv / 100)
          else min dv s)"
  using assms by (auto simp: voucher_discount_def Let_def min_def split: option.splits)





text \<open>
  Claim C2. Every path that computes totals should persist
  \<open>totalAmount = max 0 (subtotal - discount + tax + serviceFee)\<close>, and the pre-save hook of
  a ticket should agree with \<^verbatim>\<open>calculateTotals\<close>. An existing ticket with one seat of 100,
  a fixed voucher of 20, tax 10 and service fee 5 is saved after only its voucher was
  changed: the first hook runs, the hook that calls \<^verbatim>\<open>calculateTotals\<close> does not, and the
  total that is persisted is 80, where \<^verbatim>\<open>calculateTotals\<close> and the rule give 95.
\<close>

theorem ticket_voucher_save_total:
  "totalAmount (ticket_pre_save voucher_only taxed_ticket) = Num 80
   \<and> totalAmount (calculateTotals taxed_ticket) = Num 95
   \<and> spec_total (spec_subtotal taxed_ticket) 20 (tax taxed_ticket) (serviceFee taxed_ticket) = 95"
  by (simp add: ticket_pre_save_def ticket_defaults_hook_def ticket_totals_hook_def assign_number_def voucher_only_def
        taxed_ticket_def sample_reservation_def fixed_voucher_def priced_seat_def
        calculateTotals_def voucher_discount_def js_or_def spec_total_def spec_subtotal_def Let_def)

text \<open>
  With a combo on the ticket the hook's sum is \<open>NaN\<close>, because it multiplies the price by
  \<^verbatim>\<open>combo.qty\<close>, a path the schema does not have; the assignment is refused, the subtotal
  stored before is kept, and the same save persists 80 where \<^verbatim>\<open>calculateTotals\<close> gives 195.
\<close>

theorem ticket_hook_combo_total:
  "totalAmount (ticket_pre_save voucher_only (taxed_ticket\<lparr>combos := [popcorn]\<rparr>)) = Num 80
   \<and> totalAmount (calculateTotals (taxed_ticket\<lparr>combos := [popcorn]\<rparr>)) = Num 195"
  by (simp add: ticket_pre_save_def ticket_defaults_hook_def ticket_totals_hook_def assign_number_def voucher_only_def
        taxed_ticket_def sample_reservation_def fixed_voucher_def priced_seat_def popcorn_def qty_def
        calculateTotals_def voucher_discount_def js_or_def Let_def)

text \<open>
  Claim C3, as stated, at a percent voucher of 10 with \<^verbatim>\<open>maxDiscount\<close> 0 on a subtotal of
  1000: the rule \<open>min (subtotal * value / 100) maxDiscount\<close> gives 0, the code gives 100,
  because a \<^verbatim>\<open>maxDiscount\<close> of 0 is falsy and the cap is skipped.
\<close>

theorem zero_cap_counterexample:
  "discount (calculateTotals uncapped_booking) = Num 100
   \<and> spec_discount (percent_voucher 10 (Some 0)) (spec_subtotal uncapped_booking) = 0"
  by (simp add: uncapped_booking_def sample_reservation_def percent_voucher_def priced_seat_def
        calculateTotals_def voucher_discount_def js_or_def spec_discount_def spec_subtotal_def Let_def)

text \<open>
  Claim C3, amended. For a voucher whose \<^verbatim>\<open>discountValue\<close> is present and not zero: a percent
  voucher gives \<open>subtotal * value / 100\<close>, capped by \<^verbatim>\<open>maxDiscount\<close> when that is present and
  not zero, and uncapped otherwise; a fixed voucher gives \<open>min value subtotal\<close>.
\<close>

theorem discount_rule:
  assumes "voucher b = Some v" and "discountValue v = Some dv" and "dv \<noteq> 0"
  shows "discount (calculateTotals b) =
     Num (if discountType v = Percent then
            (case maxDiscount v of
               Some m \<Rightarrow> if m \<noteq> 0 then min (spec_subtotal b * dv / 100) m
                         else spec_subtotal b * dv / 100
             | None \<Rightarrow> spec_subtotal b * dv / 100)
          else min dv (spec_subtotal b))"
  using assms by (simp add: calculateTotals_discount voucher_discount_applied)

text \<open>
  Claim C3, the scenario of the specification: a percent voucher of 10 with \<^verbatim>\<open>maxDiscount\<close>
  50000 on a subtotal of 1000000 gives a discount of 50000.
\<close>

theorem discount_rule_witness:
  "voucher save10_booking = Some (percent_voucher 10 (Some 50000))
   \<and> discountValue (percent_voucher 10 (Some 50000)) = Some 10
   \<and> spec_subtotal save10_booking = 1000000
   \<and> discount (calculateTotals save10_booking) = Num 50000"
proof -
  have v: "voucher save10_booking = Some (percent_voucher 10 (Some 50000))"
    by (simp add: save10_booking_def)
  have dv: "discountValue (percent_voucher 10 (Some 50000)) = Some 10"
    by (simp add: percent_voucher_def)
  have nz: "(10::real) \<noteq> 0" by simp
  have s: "spec_subtotal save10_booking = 1000000"
    by (simp add: spec_subtotal_def save10_booking_def sample_reservation_def priced_seat_def)
  have "discount (calculateTotals save10_booking) = Num 50000"
    using discount_rule [OF v dv nz] by (simp add: s percent_voucher_def)
  with v dv s show ?thesis by simp
qed










text \<open>
  A document that \<^verbatim>\<open>save()\<close> rejects is within reach: the first hook of a ticket stores
  \<open>subtotal - discount\<close> unclamped, here 100 - 150, and the later \<^verbatim>\<open>cancel\<close> of that
  pending ticket fails on the \<^verbatim>\<open>min\<close> validator of \<^verbatim>\<open>totalAmount\<close>.
\<close>

theorem negative_total_blocks_cancel:
  "totalAmount overdiscounted_ticket = Num (- 50)
   \<and> status overdiscounted_ticket = Pending
   \<and> ticket_cancel overdiscounted_ticket 7 ''late'' 900000
       = Inl (ValidationError ''Ticket validation failed'')"
proof -
  have t: "overdiscounted_ticket =
      sample_reservation\<lparr>voucher := Some (percent_voucher 150 None), subtotal := Num 100,
                         discount := Num 150, totalAmount := Num (- 50)\<rparr>"
    by (simp add: overdiscounted_ticket_def ticket_pre_save_def ticket_defaults_hook_def
          ticket_totals_hook_def assign_number_def voucher_only_def sample_reservation_def
          percent_voucher_def priced_seat_def voucher_discount_def Let_def)
  show ?thesis
    by (simp add: t ticket_cancel_def schema_valid_def min_ok_def sample_reservation_def Let_def)
qed

text \<open>
  Claim C5, as stated, at a room whose only schedule, 10:00 to 12:00, is inactive: a new
  schedule from 11:00 to 13:00 is refused as a conflict although no active schedule
  overlaps it.
\<close>

theorem create_inactive_counterexample:
  "createSchedule lenient_model 2 9 retired_show_db (request_at (hour 11) (hour 13)) = Inl ScheduleConflict
   \<and> \<not> spec_create_conflict retired_show_db (request_at (hour 11) (hour 13))"
  by (simp add: createSchedule_def retired_show_db_def request_at_def show_in_room_def hour_def
        small_room_def spec_create_conflict_def overlaps_def)

lemma find_None_Bex: "(find P xs = None) = (\<not> (\<exists>x\<in>set xs. P x))"
  by (auto simp: find_None_iff)

lemma find_Some_holds: "find P xs = Some x \<Longrightarrow> P x \<and> x \<in> set xs"
  by (auto simp: find_Some_iff)

lemma find_is_Some_Bex: "(\<exists>x. find P xs = Some x) = (\<exists>x\<in>set xs. P x)"
  using find_None_Bex [of P xs] by (cases "find P xs") auto

lemma create_conflict_iff:
  "createSchedule M nid uid db body = Inl ScheduleConflict \<longleftrightarrow>
      movieId body \<in> set (movies db) \<and> theaterId body \<in> set (theaters db)
      \<and> (\<exists>r\<in>set (rooms db). room_id r = roomId body \<and> room_theater r = theaterId body)
      \<and> (\<exists>s\<in>set (schedules db). sched_room s = roomId body
            \<and> overlaps (new_startTime body) (new_endTime body) s)"
proof -
  let ?room = "find (\<lambda>r. room_id r = roomId body \<and> room_theater r = theaterId body) (rooms db)"
  let ?clash = "find (\<lambda>s. sched_room s = roomId body \<and> startTime s < new_endTime body
                          \<and> endTime s > new_startTime body) (schedules db)"
  have room: "(?room = None) = (\<not> (\<exists>r\<in>set (rooms db). room_id r = roomId body \<and> room_theater r = theaterId body))"
    by (rule find_None_Bex)
  have clash: "(?clash = None) = (\<not> (\<exists>s\<in>set (schedules db). sched_room s = roomId body
            \<and> overlaps (new_startTime body) (new_endTime body) s))"
    by (simp add: find_None_Bex overlaps_def)
  show ?thesis
  proof (cases ?room)
    case None
    with room show ?thesis by (simp add: createSchedule_def)
  next
    case r: (Some r)
    show ?thesis
    proof (cases ?clash)
      case None
      with r room clash show ?thesis by (auto simp: createSchedule_def Let_def)
    next
      case (Some c)
      with r room clash show ?thesis by (auto simp: createSchedule_def Let_def)
    qed
  qed
qed

lemma create_success_iff:
  "(\<exists>doc. createSchedule M nid uid db body = Inr (doc, db\<lparr>schedules := schedules db @ [doc]\<rparr>)
             \<and> sched_id doc = nid \<and> sched_room doc = roomId body
             \<and> startTime doc = new_startTime body \<and> endTime doc = new_endTime body) \<longleftrightarrow>
      movieId body \<in> set (movies db) \<and> theaterId body \<in> set (theaters db)
      \<and> (\<exists>r\<in>set (rooms db). room_id r = roomId body \<and> room_theater r = theaterId body)
      \<and> \<not> (\<exists>s\<in>set (schedules db). sched_room s = roomId body
            \<and> overlaps (new_startTime body) (new_endTime body) s)
      \<and> validates M \<lparr>sched_id = nid, sched_movie = movieId body, sched_theater = theaterId body,
                       sched_room = roomId body, startTime = new_startTime body,
                       endTime = new_endTime body, sched_price = new_price body,
                       is3d = new_is3d body, hasSubtitles = new_hasSubtitles body,
                       isDubbed = new_isDubbed body, isActive = isActive_default M,
                       createdBy = uid\<rparr>"
proof -
  let ?room = "find (\<lambda>r. room_id r = roomId body \<and> room_theater r = theaterId body) (rooms db)"
  let ?clash = "find (\<lambda>s. sched_room s = roomId body \<and> startTime s < new_endTime body
                          \<and> endTime s > new_startTime body) (schedules db)"
  have room: "(?room = None) = (\<not> (\<exists>r\<in>set (rooms db). room_id r = roomId body \<and> room_theater r = theaterId body))"
    by (rule find_None_Bex)
  have clash: "(?clash = None) = (\<not> (\<exists>s\<in>set (schedules db). sched_room s = roomId body
            \<and> overlaps (new_startTime body) (new_endTime body) s))"
    by (simp add: find_None_Bex overlaps_def)
  show ?thesis
  proof (cases ?room)
    case None
    with room show ?thesis by (simp add: createSchedule_def)
  next
    case r: (Some r)
    show ?thesis
    proof (cases ?clash)
      case None
      with r room clash show ?thesis by (auto simp: createSchedule_def Let_def)
    next
      case (Some c)
      with r room clash show ?thesis by (auto simp: createSchedule_def Let_def)
    qed
  qed
qed

text \<open>
  Claim C5, amended. When movie, theater and room exist, \<^verbatim>\<open>createSchedule\<close> answers with the
  conflict exactly when some schedule of the room, active or not, overlaps the new
  half-open interval; it stores the new schedule exactly when there is none and the
  Schedule model accepts the document; schedules that only touch the new interval are
  no conflict.
\<close>

theorem create_conflict_rule:
  "(createSchedule M nid uid db body = Inl ScheduleConflict \<longleftrightarrow>
      movieId body \<in> set (movies db) \<and> theaterId body \<in> set (theaters db)
      \<and> (\<exists>r\<in>set (rooms db). room_id r = roomId body \<and> room_theater r = theaterId body)
      \<and> (\<exists>s\<in>set (schedules db). sched_room s = roomId body
            \<and> overlaps (new_startTime body) (new_endTime body) s))
   \<and> ((\<exists>doc. createSchedule M nid uid db body = Inr (doc, db\<lparr>schedules := schedules db @ [doc]\<rparr>)
             \<and> sched_id doc = nid \<and> sched_room doc = roomId body
             \<and> startTime doc = new_startTime body \<and> endTime doc = new_endTime body) \<longleftrightarrow>
      movieId body \<in> set (movies db) \<and> theaterId body \<in> set (theaters db)
      \<and> (\<exists>r\<in>set (rooms db). room_id r = roomId body \<and> room_theater r = theaterId body)
      \<and> \<not> (\<exists>s\<in>set (schedules db). sched_room s = roomId body
            \<and> overlaps (new_startTime body) (new_endTime body) s)
      \<and> validates M \<lparr>sched_id = nid, sched_movie = movieId body, sched_theater = theaterId body,
                       sched_room = roomId body, startTime = new_startTime body,
                       endTime = new_endTime body, sched_price = new_price body,
                       is3d = new_is3d body, hasSubtitles = new_hasSubtitles body,
                       isDubbed = new_isDubbed body, isActive = isActive_default M,
                       createdBy = uid\<rparr>)
   \<and> ((\<forall>s\<in>set (schedules db). sched_room s = roomId body \<longrightarrow>
          endTime s \<le> new_startTime body \<or> new_endTime body \<le> startTime s) \<longrightarrow>
        createSchedule M nid uid db body \<noteq> Inl ScheduleConflict)"
proof (intro conjI)
  show "(\<forall>s\<in>set (schedules db). sched_room s = roomId body \<longrightarrow>
          endTime s \<le> new_startTime body \<or> new_endTime body \<le> startTime s) \<longrightarrow>
        createSchedule M nid uid db body \<noteq> Inl ScheduleConflict"
    unfolding create_conflict_iff by (auto simp: overlaps_def)
qed (rule create_conflict_iff create_success_iff)+

text \<open>
  Claim C5, the scenario of the specification: with a schedule from 10:00 to 12:00 in the
  room, 11:00 to 13:00 is a conflict and 12:00 to 13:00 is not.
\<close>

theorem create_conflict_rule_witness:
  "createSchedule lenient_model 2 9 active_show_db (request_at (hour 11) (hour 13)) = Inl ScheduleConflict
   \<and> createSchedule lenient_model 2 9 active_show_db (request_at (hour 12) (hour 13)) \<noteq> Inl ScheduleConflict"
proof
  have "movieId (request_at (hour 11) (hour 13)) \<in> set (movies active_show_db)
      \<and> theaterId (request_at (hour 11) (hour 13)) \<in> set (theaters active_show_db)
      \<and> (\<exists>r\<in>set (rooms active_show_db). room_id r = roomId (request_at (hour 11) (hour 13))
            \<and> room_theater r = theaterId (request_at (hour 11) (hour 13)))
      \<and> (\<exists>s\<in>set (schedules active_show_db). sched_room s = roomId (request_at (hour 11) (hour 13))
            \<and> overlaps (new_startTime (request_at (hour 11) (hour 13)))
                 (new_endTime (request_at (hour 11) (hour 13))) s)"
    by (simp add: active_show_db_def request_at_def small_room_def show_in_room_def hour_def
          overlaps_def)
  then show "createSchedule lenient_model 2 9 active_show_db (request_at (hour 11) (hour 13))
      = Inl ScheduleConflict"
    by (rule create_conflict_rule [THEN conjunct1, THEN iffD2])
next
  have "\<forall>s\<in>set (schedules active_show_db). sched_room s = roomId (request_at (hour 12) (hour 13)) \<longrightarrow>
          endTime s \<le> new_startTime (request_at (hour 12) (hour 13))
          \<or> new_endTime (request_at (hour 12) (hour 13)) \<le> startTime s"
    by (simp add: active_show_db_def request_at_def show_in_room_def hour_def)
  then show "createSchedule lenient_model 2 9 active_show_db (request_at (hour 12) (hour 13))
      \<noteq> Inl ScheduleConflict"
    by (rule create_conflict_rule [THEN conjunct2, THEN conjunct2, THEN mp])
qed

text \<open>
  Claim C9, as stated: moving the start of schedule 2 to 11:00 is refused because of
  schedule 1, which is inactive; no active schedule conflicts.
\<close>

theorem update_inactive_counterexample:
  "updateSchedule lenient_model (two_show_db False) 2 (no_change\<lparr>body_startTime := Some (hour 11)\<rparr>)
     = Inl ScheduleConflict
   \<and> \<not> spec_update_conflict (two_show_db False) (show_in_room 2 1 (hour 14) (hour 16) True)
         (no_change\<lparr>body_startTime := Some (hour 11)\<rparr>)"
  by (simp add: updateSchedule_def two_show_db_def no_change_def show_in_room_def hour_def
        or_else_def spec_update_conflict_def overlaps_def Let_def)

text \<open>
  Claim C9, amended. \<^verbatim>\<open>updateSchedule\<close> answers with the conflict exactly when the schedule
  exists, the body has a start, an end or a room, and some other schedule, active or not,
  in the target room overlaps the target interval; a body with none of the three never
  gives the conflict.
\<close>

theorem update_conflict_rule:
  "(updateSchedule M db ident body = Inl ScheduleConflict \<longleftrightarrow>
      (\<exists>own. find (\<lambda>s. sched_id s = ident) (schedules db) = Some own
         \<and> (body_startTime body \<noteq> None \<or> body_endTime body \<noteq> None \<or> body_roomId body \<noteq> None)
         \<and> (\<exists>s\<in>set (schedules db). sched_id s \<noteq> sched_id own
               \<and> sched_room s = or_else (body_roomId body) (sched_room own)
               \<and> overlaps (or_else (body_startTime body) (startTime own))
                          (or_else (body_endTime body) (endTime own)) s)))
   \<and> (body_startTime body = None \<and> body_endTime body = None \<and> body_roomId body = None \<longrightarrow>
        updateSchedule M db ident body \<noteq> Inl ScheduleConflict)"
proof -
  let ?own = "find (\<lambda>s. sched_id s = ident) (schedules db)"
  have main: "updateSchedule M db ident body = Inl ScheduleConflict \<longleftrightarrow>
      (\<exists>own. ?own = Some own
         \<and> (body_startTime body \<noteq> None \<or> body_endTime body \<noteq> None \<or> body_roomId body \<noteq> None)
         \<and> (\<exists>s\<in>set (schedules db). sched_id s \<noteq> sched_id own
               \<and> sched_room s = or_else (body_roomId body) (sched_room own)
               \<and> overlaps (or_else (body_startTime body) (startTime own))
                          (or_else (body_endTime body) (endTime own)) s))"
  proof (cases ?own)
    case None
    then show ?thesis by (simp add: updateSchedule_def)
  next
    case (Some own)
    let ?clash = "find (\<lambda>s. sched_id s \<noteq> sched_id own
                                 \<and> sched_room s = or_else (body_roomId body) (sched_room own)
                                 \<and> startTime s < or_else (body_endTime body) (endTime own)
                                 \<and> endTime s > or_else (body_startTime body) (startTime own))
                       (schedules db)"
    have clash: "(?clash = None) = (\<not> (\<exists>s\<in>set (schedules db). sched_id s \<noteq> sched_id own
               \<and> sched_room s = or_else (body_roomId body) (sched_room own)
               \<and> overlaps (or_else (body_startTime body) (startTime own))
                          (or_else (body_endTime body) (endTime own)) s))"
      by (simp add: find_None_Bex overlaps_def)
    show ?thesis
    proof (cases "body_startTime body \<noteq> None \<or> body_endTime body \<noteq> None \<or> body_roomId body \<noteq> None")
      case False
      with Some show ?thesis by (simp add: updateSchedule_def Let_def)
    next
      case True
      show ?thesis
      proof (cases ?clash)
        case None
        with Some True clash show ?thesis by (auto simp: updateSchedule_def Let_def)
      next
        case c: (Some c)
        with Some True clash show ?thesis by (auto simp: updateSchedule_def Let_def)
      qed
    qed
  qed
  show ?thesis
  proof (intro conjI)
    show "body_startTime body = None \<and> body_endTime body = None \<and> body_roomId body = None \<longrightarrow>
        updateSchedule M db ident body \<noteq> Inl ScheduleConflict"
      unfolding main by simp
  qed (rule main)
qed

text \<open>
  Claim C9 at two schedules of one room: moving the second into the first is a conflict,
  changing only its price is not.
\<close>

theorem update_conflict_rule_witness:
  "updateSchedule lenient_model (two_show_db True) 2 (no_change\<lparr>body_startTime := Some (hour 11)\<rparr>)
     = Inl ScheduleConflict
   \<and> updateSchedule lenient_model (two_show_db True) 2 (no_change\<lparr>body_price := Some 120000\<rparr>)
     \<noteq> Inl ScheduleConflict"
proof
  let ?body = "no_change\<lparr>body_startTime := Some (hour 11)\<rparr>"
  let ?own = "show_in_room 2 1 (hour 14) (hour 16) True"
  have "find (\<lambda>s. sched_id s = 2) (schedules (two_show_db True)) = Some ?own
         \<and> (body_startTime ?body \<noteq> None \<or> body_endTime ?body \<noteq> None \<or> body_roomId ?body \<noteq> None)
         \<and> (\<exists>s\<in>set (schedules (two_show_db True)). sched_id s \<noteq> sched_id ?own
               \<and> sched_room s = or_else (body_roomId ?body) (sched_room ?own)
               \<and> overlaps (or_else (body_startTime ?body) (startTime ?own))
                          (or_else (body_endTime ?body) (endTime ?own)) s)"
    by (simp add: two_show_db_def no_change_def show_in_room_def hour_def or_else_def overlaps_def)
  then have "\<exists>own. find (\<lambda>s. sched_id s = 2) (schedules (two_show_db True)) = Some own
         \<and> (body_startTime ?body \<noteq> None \<or> body_endTime ?body \<noteq> None \<or> body_roomId ?body \<noteq> None)
         \<and> (\<exists>s\<in>set (schedules (two_show_db True)). sched_id s \<noteq> sched_id own
               \<and> sched_room s = or_else (body_roomId ?body) (sched_room own)
               \<and> overlaps (or_else (body_startTime ?body) (startTime own))
                          (or_else (body_endTime ?body) (endTime own)) s)"
    by (rule exI [of _ ?own])
  then show "updateSchedule lenient_model (two_show_db True) 2 ?body = Inl ScheduleConflict"
    by (rule update_conflict_rule [THEN conjunct1, THEN iffD2])
next
  let ?body = "no_change\<lparr>body_price := Some 120000\<rparr>"
  have "body_startTime ?body = None \<and> body_endTime ?body = None \<and> body_roomId ?body = None"
    by (simp add: no_change_def)
  then show "updateSchedule lenient_model (two_show_db True) 2 ?body \<noteq> Inl ScheduleConflict"
    by (rule update_conflict_rule [THEN conjunct2, THEN mp])
qed

lemma Booking_unbound: "''Booking'' \<notin> set scheduleController_scope"
  by (simp add: scheduleController_scope_def)

text \<open>
  For every database, identifier and count of bookings, \<^verbatim>\<open>deleteSchedule\<close> answers 404 or
  500 and removes nothing.
\<close>

lemma deleteSchedule_never_deletes:
  "deleteSchedule cnt db ident =
     (if find (\<lambda>s. sched_id s = ident) (schedules db) = None
      then Inl (NotFound ''Schedule not found'') else Inl ServerError)"
  by (simp add: deleteSchedule_def Booking_unbound split: option.splits)

text \<open>
  Claim C8. A schedule without any booking should be deleted. \<^verbatim>\<open>deleteSchedule\<close> on such a
  schedule ends in the catch block with status 500 and the schedule stays, because the
  controller never binds \<^verbatim>\<open>Booking\<close>.
\<close>

theorem delete_unbooked_schedule_fails:
  "deleteSchedule (\<lambda>s. 0) active_show_db 1 = Inl ServerError
   \<and> find (\<lambda>s. sched_id s = 1) (schedules active_show_db)
       = Some (show_in_room 1 1 (hour 10) (hour 12) True)"
  by (simp add: deleteSchedule_never_deletes active_show_db_def show_in_room_def)

text \<open>
  Claim C7, as stated, at a pending ticket for seat A1 whose \<^verbatim>\<open>expiresAt\<close> (600000) lies
  before the clock (900000): the specification treats A1 as free, the code reports it as
  not available.
\<close>

theorem stale_hold_counterexample:
  "getAvailableSeats [evening_show] [small_room] [stale_hold] 1
     = Inr [(make_seat 0 1, False), (make_seat 0 2, True)]
   \<and> rs_code (make_seat 0 1) = ''A1''
   \<and> \<not> spec_taken 900000 [stale_hold] 1 ''A1''"
  by (simp add: getAvailableSeats_def evening_show_def small_room_def stale_hold_def
        sample_reservation_def priced_seat_def make_seat_def alphabet_def spec_taken_def
        digit_char_def string_of_nat.simps Let_def)

text \<open>
  Claim C7, amended. \<^verbatim>\<open>getAvailableSeats\<close> of Booking.js reports a seat of the room as
  available exactly when the seat's own status is available and no ticket of the showtime
  that is pending or confirmed, and whose payment is not refunded, contains its code. The
  answer does not depend on \<^verbatim>\<open>expiresAt\<close>.
\<close>

theorem availability_rule:
  "(find (\<lambda>st. st_id st = sid) showtimes = Some st \<and> find (\<lambda>r. room_id r = st_room st) rms = Some r \<longrightarrow>
      getAvailableSeats showtimes rms tickets sid =
        Inr (map (\<lambda>seat. (seat, rs_status seat = Available
                \<and> \<not> (\<exists>t\<in>set tickets. showtime t = sid
                        \<and> (status t = Pending \<or> status t = Confirmed)
                        \<and> payment_state t \<noteq> PayRefunded
                        \<and> rs_code seat \<in> seat_code ` set (seats t))))
             (room_seats r)))
   \<and> getAvailableSeats showtimes rms (map (\<lambda>t. t\<lparr>expiresAt := e t\<rparr>) tickets) sid
        = getAvailableSeats showtimes rms tickets sid"
proof (intro conjI impI)
  assume "find (\<lambda>st. st_id st = sid) showtimes = Some st \<and> find (\<lambda>r. room_id r = st_room st) rms = Some r"
  then show "getAvailableSeats showtimes rms tickets sid =
        Inr (map (\<lambda>seat. (seat, rs_status seat = Available
                \<and> \<not> (\<exists>t\<in>set tickets. showtime t = sid
                        \<and> (status t = Pending \<or> status t = Confirmed)
                        \<and> payment_state t \<noteq> PayRefunded
                        \<and> rs_code seat \<in> seat_code ` set (seats t))))
             (room_seats r))"
    by (auto simp: getAvailableSeats_def Let_def)
next
  have f: "filter (\<lambda>b. showtime b = sid \<and> (status b = Confirmed \<or> status b = Pending)
                      \<and> payment_state b \<noteq> PayRefunded) (map (\<lambda>t. t\<lparr>expiresAt := e t\<rparr>) tickets)
         = map (\<lambda>t. t\<lparr>expiresAt := e t\<rparr>)
             (filter (\<lambda>b. showtime b = sid \<and> (status b = Confirmed \<or> status b = Pending)
                      \<and> payment_state b \<noteq> PayRefunded) tickets)"
    by (simp add: filter_map comp_def)
  show "getAvailableSeats showtimes rms (map (\<lambda>t. t\<lparr>expiresAt := e t\<rparr>) tickets) sid
        = getAvailableSeats showtimes rms tickets sid"
    by (simp add: getAvailableSeats_def Let_def f comp_def split: option.splits)
qed

text \<open>
  Claim C7 at a room with seats A1 and A2 and one pending ticket for A1.
\<close>

theorem availability_rule_witness:
  "getAvailableSeats [evening_show] [small_room] [stale_hold] 1 =
     Inr (map (\<lambda>seat. (seat, rs_status seat = Available
                \<and> \<not> (\<exists>t\<in>set [stale_hold]. showtime t = 1
                        \<and> (status t = Pending \<or> status t = Confirmed)
                        \<and> payment_state t \<noteq> PayRefunded
                        \<and> rs_code seat \<in> seat_code ` set (seats t))))
             (room_seats small_room))"
proof -
  have "find (\<lambda>st. st_id st = 1) [evening_show] = Some evening_show
      \<and> find (\<lambda>r. room_id r = st_room evening_show) [small_room] = Some small_room"
    by (simp add: evening_show_def small_room_def)
  then show ?thesis
    by (rule availability_rule [THEN conjunct1, THEN mp])
qed

text \<open>
  \<^verbatim>\<open>getAvailableSeats\<close> of Room.js asks for the statuses \<^verbatim>\<open>'booked'\<close> and \<^verbatim>\<open>'confirmed'\<close>, so
  a pending ticket that has not expired does not take its seat there, while the same
  ticket takes it in Booking.js.
\<close>

theorem room_path_skips_pending:
  "room_getAvailableSeats small_room [stale_hold\<lparr>expiresAt := 1200000\<rparr>] 1
     = [(make_seat 0 1, True), (make_seat 0 2, True)]
   \<and> getAvailableSeats [evening_show] [small_room] [stale_hold\<lparr>expiresAt := 1200000\<rparr>] 1
     = Inr [(make_seat 0 1, False), (make_seat 0 2, True)]"
  by (simp add: room_getAvailableSeats_def getAvailableSeats_def evening_show_def small_room_def
        stale_hold_def sample_reservation_def priced_seat_def make_seat_def alphabet_def
        digit_char_def string_of_nat.simps Let_def)

text \<open>
  Claim C1. At most one active reservation of a showtime may contain a seat code. Two new
  bookings of showtime 1, both for seat A1, are saved one after the other. No unique index
  of \<^verbatim>\<open>bookingSchema\<close> has a key on the seat codes, and the pre-save hook only computes
  totals, so both remain pending and both hold A1. The only index declared over seat
  codes is the one of the ticket schema; its first key is \<^verbatim>\<open>scheduleId\<close>, a path that
  schema does not declare, and its filter uses \<^verbatim>\<open>$ne\<close>.
\<close>

theorem double_booking_not_refused:
  "\<not> list_ex guards_seats bookingSchema_indexes
   \<and> guards_seats ticket_seat_index
   \<and> hd (key_paths ticket_seat_index) \<notin> set ticketSchema_paths
   \<and> partial_filter ticket_seat_index = Some (''status'', ''$ne'', ''cancelled'')
   \<and> showtime first_claim = showtime second_claim
   \<and> holders [booking_pre_save creating first_claim, booking_pre_save creating second_claim] 1 ''A1''
       = [booking_pre_save creating first_claim, booking_pre_save creating second_claim]
   \<and> doc_id (booking_pre_save creating first_claim) \<noteq> doc_id (booking_pre_save creating second_claim)"
  by (simp add: guards_seats_def bookingSchema_indexes_def ticket_seat_index_def
        ticketSchema_paths_def holders_def active_def booking_pre_save_def creating_def
        calculateTotals_def first_claim_def second_claim_def sample_reservation_def
        priced_seat_def Let_def)

lemma col_test: "1 \<le> col \<Longrightarrow> (real col \<le> spr) = (col \<le> nat \<lfloor>spr\<rfloor>)"
proof
  assume "real col \<le> spr"
  then show "col \<le> nat \<lfloor>spr\<rfloor>" by (rule le_nat_floor)
next
  assume c: "1 \<le> col" and l: "col \<le> nat \<lfloor>spr\<rfloor>"
  then have "0 \<le> \<lfloor>spr\<rfloor>" by linarith
  with l have "int col \<le> \<lfloor>spr\<rfloor>" by linarith
  then have "real_of_int (int col) \<le> spr" by (simp only: le_floor_iff)
  then show "real col \<le> spr" by simp
qed

lemma row_test: "(real row < n) = (row < nat \<lceil>n\<rceil>)"
proof -
  have "(real_of_int (int row) < n) = (int row < \<lceil>n\<rceil>)"
    by (simp only: less_ceiling_iff)
  then show ?thesis by (simp add: zless_nat_eq_int_zless)
qed

lemma col_loop_map:
  assumes "nat \<lfloor>spr\<rfloor> = C" and "1 \<le> col"
  shows "col_loop spr row col acc = acc @ map (make_seat row) [col..<Suc C]"
  using assms
proof (induction spr row col acc rule: col_loop.induct)
  case (1 spr row col acc)
  from "1.prems" have t: "(real col \<le> spr) = (col \<le> C)"
    using col_test [of col spr] by (simp only:)
  show ?case
  proof (cases "real col \<le> spr")
    case True
    with t have "col \<le> C" by blast
    then have u: "[col..<Suc C] = col # [Suc col..<Suc C]"
      by (simp add: upt_conv_Cons)
    have "col_loop spr row col acc = col_loop spr row (Suc col) (acc @ [make_seat row col])"
      using True by (subst col_loop.simps) (simp only: if_True)
    also have "\<dots> = (acc @ [make_seat row col]) @ map (make_seat row) [Suc col..<Suc C]"
      using True "1.prems"(1) by (rule "1.IH") simp
    finally show ?thesis by (simp only: u) simp
  next
    case False
    with t have "\<not> col \<le> C" by blast
    then have u: "[col..<Suc C] = []" by simp
    have "col_loop spr row col acc = acc"
      using False by (subst col_loop.simps) (simp only: if_False)
    then show ?thesis by (simp only: u) simp
  qed
qed

lemma row_loop_map:
  assumes "nat \<lceil>n\<rceil> = R" and "nat \<lfloor>spr\<rfloor> = C"
  shows "row_loop n spr row acc =
     acc @ concat (map (\<lambda>r. map (make_seat r) [1..<Suc C]) [row..<R])"
  using assms
proof (induction n spr row acc rule: row_loop.induct)
  case (1 n spr row acc)
  from "1.prems" have t: "(real row < n) = (row < R)"
    using row_test [of row n] by (simp only:)
  show ?case
  proof (cases "real row < n")
    case True
    with t have "row < R" by blast
    then have u: "[row..<R] = row # [Suc row..<R]"
      by (simp add: upt_conv_Cons)
    have c: "col_loop spr row 1 acc = acc @ map (make_seat row) [1..<Suc C]"
      using "1.prems"(2) by (rule col_loop_map) simp
    have "row_loop n spr row acc = row_loop n spr (Suc row) (col_loop spr row 1 acc)"
      using True by (subst row_loop.simps) (simp only: if_True)
    also have "\<dots> = col_loop spr row 1 acc
        @ concat (map (\<lambda>r. map (make_seat r) [1..<Suc C]) [Suc row..<R])"
      using True "1.prems" by (rule "1.IH")
    finally show ?thesis by (simp only: u c) simp
  next
    case False
    with t have "\<not> row < R" by blast
    then have u: "[row..<R] = []" by simp
    have "row_loop n spr row acc = acc"
      using False by (subst row_loop.simps) (simp only: if_False)
    then show ?thesis by (simp only: u) simp
  qed
qed

lemma concat_map_product:
  "concat (map (\<lambda>r. map (f r) ys) xs) = map (\<lambda>(r, c). f r c) (List.product xs ys)"
  by (induction xs) (simp_all add: comp_def)

lemma generateSeatMap_grid:
  assumes "nat \<lceil>rows this\<rceil> = R" and "nat \<lfloor>seatsPerRow this\<rfloor> = C"
  shows "generateSeatMap this = seat_grid R C"
  using row_loop_map [OF assms, of 0 "[]"]
  by (simp add: generateSeatMap_def seat_grid_def concat_map_product)

lemma length_seat_grid: "length (seat_grid R C) = R * C"
  by (simp add: seat_grid_def)

lemma digit_char_inj: "a < 10 \<Longrightarrow> b < 10 \<Longrightarrow> digit_char a = digit_char b \<Longrightarrow> a = b"
proof -
  assume a: "a < 10" and b: "b < 10" and e: "digit_char a = digit_char b"
  have d: "distinct ''0123456789''" by simp
  have l: "length ''0123456789'' = 10" by simp
  from e have "''0123456789'' ! a = ''0123456789'' ! b" by (simp only: digit_char_def)
  with d a b l show "a = b" by (simp only: nth_eq_iff_index_eq)
qed

lemma string_of_nat_not_Nil: "string_of_nat n \<noteq> []"
  by (subst string_of_nat.simps) simp

lemma string_of_nat_small: "n < 10 \<Longrightarrow> string_of_nat n = [digit_char n]"
  by (subst string_of_nat.simps) simp

lemma string_of_nat_large:
  "\<not> n < 10 \<Longrightarrow> string_of_nat n = string_of_nat (n div 10) @ [digit_char (n mod 10)]"
  by (subst string_of_nat.simps) simp

lemma string_of_nat_inj: "string_of_nat n = string_of_nat m \<Longrightarrow> n = m"
proof (induction n arbitrary: m rule: string_of_nat.induct)
  case (1 n)
  show ?case
  proof (cases "n < 10")
    case n: True
    show ?thesis
    proof (cases "m < 10")
      case True
      with n "1.prems" have "digit_char n = digit_char m"
        by (simp add: string_of_nat_small)
      with n True show ?thesis by (rule digit_char_inj)
    next
      case False
      from n have "string_of_nat n = [digit_char n]" by (rule string_of_nat_small)
      moreover from False have "string_of_nat m = string_of_nat (m div 10) @ [digit_char (m mod 10)]"
        by (rule string_of_nat_large)
      ultimately have "[digit_char n] = string_of_nat (m div 10) @ [digit_char (m mod 10)]"
        using "1.prems" by simp
      then have "string_of_nat (m div 10) = []" by simp
      with string_of_nat_not_Nil show ?thesis by blast
    qed
  next
    case n: False
    show ?thesis
    proof (cases "m < 10")
      case True
      from True have "string_of_nat m = [digit_char m]" by (rule string_of_nat_small)
      moreover from n have "string_of_nat n = string_of_nat (n div 10) @ [digit_char (n mod 10)]"
        by (rule string_of_nat_large)
      ultimately have "string_of_nat (n div 10) @ [digit_char (n mod 10)] = [digit_char m]"
        using "1.prems" by simp
      then have "string_of_nat (n div 10) = []" by simp
      with string_of_nat_not_Nil show ?thesis by blast
    next
      case False
      from False have "string_of_nat m = string_of_nat (m div 10) @ [digit_char (m mod 10)]"
        by (rule string_of_nat_large)
      moreover from n have "string_of_nat n = string_of_nat (n div 10) @ [digit_char (n mod 10)]"
        by (rule string_of_nat_large)
      ultimately have "string_of_nat (n div 10) @ [digit_char (n mod 10)]
          = string_of_nat (m div 10) @ [digit_char (m mod 10)]"
        using "1.prems" by simp
      then have s: "string_of_nat (n div 10) = string_of_nat (m div 10)"
        and d: "digit_char (n mod 10) = digit_char (m mod 10)"
        by simp_all
      from n s have q: "n div 10 = m div 10" by (rule "1.IH")
      have "n mod 10 < 10" "m mod 10 < 10" by simp_all
      then have r: "n mod 10 = m mod 10" using d by (rule digit_char_inj)
      have "n = 10 * (n div 10) + n mod 10" by simp
      also have "\<dots> = 10 * (m div 10) + m mod 10" by (simp only: q r)
      also have "\<dots> = m" by simp
      finally show ?thesis .
    qed
  qed
qed

lemma alphabet_facts: "distinct alphabet" "length alphabet = 26"
  by (simp_all add: alphabet_def)

lemma rs_code_make_seat:
  "rs_code (make_seat r c) = (alphabet ! (r mod 26)) # string_of_nat c"
  by (simp add: make_seat_def Let_def alphabet_facts)

lemma code_inj:
  assumes "r < 26" "r' < 26" "rs_code (make_seat r c) = rs_code (make_seat r' c')"
  shows "r = r' \<and> c = c'"
proof -
  from assms(3) have l: "alphabet ! r = alphabet ! r'" and s: "string_of_nat c = string_of_nat c'"
    using assms(1,2) by (simp_all add: rs_code_make_seat)
  from l assms(1,2) have "r = r'"
    by (simp add: nth_eq_iff_index_eq alphabet_facts)
  moreover from s have "c = c'" by (rule string_of_nat_inj)
  ultimately show ?thesis by simp
qed

lemma distinct_codes:
  assumes "R \<le> 26"
  shows "distinct (map rs_code (seat_grid R C))"
proof -
  let ?ps = "List.product [0..<R] [1..<Suc C]"
  have d: "distinct ?ps" by (simp add: distinct_product)
  have i: "inj_on (\<lambda>(r, c). rs_code (make_seat r c)) (set ?ps)"
  proof (rule inj_onI)
    fix x y
    assume x: "x \<in> set ?ps" and y: "y \<in> set ?ps"
      and e: "(case x of (r, c) \<Rightarrow> rs_code (make_seat r c)) = (case y of (r, c) \<Rightarrow> rs_code (make_seat r c))"
    obtain r c where xe: "x = (r, c)" by (cases x)
    obtain r' c' where ye: "y = (r', c')" by (cases y)
    from x xe assms have "r < 26" by auto
    moreover from y ye assms have "r' < 26" by auto
    moreover from e xe ye have "rs_code (make_seat r c) = rs_code (make_seat r' c')" by simp
    ultimately have "r = r' \<and> c = c'" by (rule code_inj)
    with xe ye show "x = y" by simp
  qed
  have "map rs_code (seat_grid R C) = map (\<lambda>(r, c). rs_code (make_seat r c)) ?ps"
    by (simp add: seat_grid_def comp_def case_prod_unfold)
  with d i show ?thesis by (simp add: distinct_map)
qed

lemma wrapped_codes:
  assumes "26 < R" "1 \<le> C"
  shows "\<not> distinct (map rs_code (seat_grid R C))"
proof
  let ?ps = "List.product [0..<R] [1..<Suc C]"
  let ?g = "\<lambda>(r, c). rs_code (make_seat r c)"
  assume "distinct (map rs_code (seat_grid R C))"
  moreover have "map rs_code (seat_grid R C) = map ?g ?ps"
    by (simp add: seat_grid_def comp_def case_prod_unfold)
  ultimately have "inj_on ?g (set ?ps)" by (simp add: distinct_map)
  moreover have "?g (0, 1) = ?g (26, 1)"
    by (simp add: rs_code_make_seat)
  moreover from assms have "(0, 1) \<in> set ?ps" "(26, 1) \<in> set ?ps" by auto
  ultimately have "(0::nat, 1::nat) = (26, 1)" by (rule inj_onD)
  then show False by simp
qed

lemma seat_shape:
  assumes "s \<in> set (seat_grid R C)" "R \<le> 26"
  shows "rs_row s < R \<and> rs_column s < C
       \<and> rs_code s = (alphabet ! rs_row s) # string_of_nat (Suc (rs_column s))
       \<and> rs_kind s = (if rs_row s < 2 then Vip else Standard)
       \<and> rs_status s = Available"
proof -
  from assms(1) obtain r c where s: "s = make_seat r c"
    and r: "r < R" and c: "1 \<le> c" "c \<le> C"
    by (auto simp: seat_grid_def)
  from r assms(2) have "r mod 26 = r" by simp
  with r c show ?thesis
    by (simp add: s make_seat_def Let_def alphabet_facts)
qed

lemma saved_room:
  "is_new \<or> dims_modified \<Longrightarrow>
     room_seats (room_pre_save is_new dims_modified this) = generateSeatMap this
     \<and> capacity (room_pre_save is_new dims_modified this) = rows this * seatsPerRow this"
  by (auto simp: room_pre_save_def)

text \<open>
  Claim C10, as stated, at a room of 1.5 rows of 2 seats, which the schema accepts: the
  loops generate 4 seats, and the capacity is set to 3.
\<close>

theorem fractional_rows_counterexample:
  "rows split_level \<le> 26 \<and> 1 \<le> seatsPerRow split_level
   \<and> length (room_seats (room_pre_save True False split_level)) = 4
   \<and> rows split_level * seatsPerRow split_level = 3
   \<and> capacity (room_pre_save True False split_level) = 3"
proof -
  have r: "nat \<lceil>rows split_level\<rceil> = 2" by (simp add: split_level_def)
  have c: "nat \<lfloor>seatsPerRow split_level\<rfloor> = 2" by (simp add: split_level_def)
  have "length (generateSeatMap split_level) = 4"
    by (simp add: generateSeatMap_grid [OF r c] length_seat_grid)
  moreover have "rows split_level * seatsPerRow split_level = 3"
    and "rows split_level \<le> 26" and "1 \<le> seatsPerRow split_level"
    by (simp_all add: split_level_def)
  ultimately show ?thesis
    using saved_room [of True False split_level] by simp
qed

text \<open>
  Claim C10, amended. A room saved as new, or with changed dimensions, whose \<^verbatim>\<open>rows\<close> and
  \<^verbatim>\<open>seatsPerRow\<close> are whole numbers, with at most 26 rows and at least one seat per row,
  gets \<open>rows * seatsPerRow\<close> seats with pairwise distinct codes, each the letter of its row
  followed by the decimal number of its column, vip in rows 0 and 1 and standard
  elsewhere, and that capacity. With more than 26 rows the letter wraps and the codes are
  not distinct.
\<close>

theorem seat_map_rule:
  "((is_new \<or> dims_modified) \<and> rows this = real n \<and> seatsPerRow this = real m
      \<and> n \<le> 26 \<and> 1 \<le> m \<longrightarrow>
      length (room_seats (room_pre_save is_new dims_modified this)) = n * m
      \<and> distinct (map rs_code (room_seats (room_pre_save is_new dims_modified this)))
      \<and> (\<forall>s\<in>set (room_seats (room_pre_save is_new dims_modified this)).
            rs_row s < n \<and> rs_column s < m
            \<and> rs_code s = (alphabet ! rs_row s) # string_of_nat (Suc (rs_column s))
            \<and> rs_kind s = (if rs_row s < 2 then Vip else Standard)
            \<and> rs_status s = Available)
      \<and> capacity (room_pre_save is_new dims_modified this) = real (n * m))
   \<and> ((is_new \<or> dims_modified) \<and> 26 < rows this \<and> 1 \<le> seatsPerRow this \<longrightarrow>
      \<not> distinct (map rs_code (room_seats (room_pre_save is_new dims_modified this))))"
proof (intro conjI impI)
  assume a: "(is_new \<or> dims_modified) \<and> rows this = real n \<and> seatsPerRow this = real m
      \<and> n \<le> 26 \<and> 1 \<le> m"
  then have n: "nat \<lceil>rows this\<rceil> = n" and m: "nat \<lfloor>seatsPerRow this\<rfloor> = m"
    by simp_all
  from a have le: "n \<le> 26" by simp
  from a have g: "room_seats (room_pre_save is_new dims_modified this) = seat_grid n m"
    and cap: "capacity (room_pre_save is_new dims_modified this) = rows this * seatsPerRow this"
    using saved_room [of is_new dims_modified this] by (simp_all add: generateSeatMap_grid [OF n m])
  show "length (room_seats (room_pre_save is_new dims_modified this)) = n * m"
    by (simp only: g length_seat_grid)
  show "distinct (map rs_code (room_seats (room_pre_save is_new dims_modified this)))"
    unfolding g using le by (rule distinct_codes)
  show "\<forall>s\<in>set (room_seats (room_pre_save is_new dims_modified this)).
            rs_row s < n \<and> rs_column s < m
            \<and> rs_code s = (alphabet ! rs_row s) # string_of_nat (Suc (rs_column s))
            \<and> rs_kind s = (if rs_row s < 2 then Vip else Standard)
            \<and> rs_status s = Available"
    unfolding g using seat_shape [OF _ le] by blast
  from a show "capacity (room_pre_save is_new dims_modified this) = real (n * m)"
    by (simp add: cap)
next
  assume a: "(is_new \<or> dims_modified) \<and> 26 < rows this \<and> 1 \<le> seatsPerRow this"
  from a have "real 26 < rows this" by simp
  then have r: "26 < nat \<lceil>rows this\<rceil>" by (simp only: row_test)
  from a have "real 1 \<le> seatsPerRow this" by simp
  then have c: "1 \<le> nat \<lfloor>seatsPerRow this\<rfloor>" by (rule le_nat_floor)
  from a have g: "room_seats (room_pre_save is_new dims_modified this)
      = seat_grid (nat \<lceil>rows this\<rceil>) (nat \<lfloor>seatsPerRow this\<rfloor>)"
    using saved_room [of is_new dims_modified this] by (simp add: generateSeatMap_grid)
  show "\<not> distinct (map rs_code (room_seats (room_pre_save is_new dims_modified this)))"
    unfolding g using r c by (rule wrapped_codes)
qed

text \<open>
  Claim C10 at a room of 2 rows of 2 seats, and at a room of 27 rows of 1 seat.
\<close>

theorem seat_map_rule_witness:
  "length (room_seats (room_pre_save True False studio)) = 4
   \<and> distinct (map rs_code (room_seats (room_pre_save True False studio)))
   \<and> capacity (room_pre_save True False studio) = 4
   \<and> \<not> distinct (map rs_code (room_seats (room_pre_save True False long_hall)))"
proof -
  have h1: "(True \<or> False) \<and> rows studio = real 2 \<and> seatsPerRow studio = real 2
      \<and> (2::nat) \<le> 26 \<and> (1::nat) \<le> 2"
    by (simp add: studio_def)
  have h2: "(True \<or> False) \<and> 26 < rows long_hall \<and> 1 \<le> seatsPerRow long_hall"
    by (simp add: long_hall_def)
  from seat_map_rule [of True False studio 2 2, THEN conjunct1, THEN mp, OF h1]
  have "length (room_seats (room_pre_save True False studio)) = 4
      \<and> distinct (map rs_code (room_seats (room_pre_save True False studio)))
      \<and> capacity (room_pre_save True False studio) = 4"
    by simp
  moreover from seat_map_rule [of True False long_hall, THEN conjunct2, THEN mp, OF h2]
  have "\<not> distinct (map rs_code (room_seats (room_pre_save True False long_hall)))" .
  ultimately show ?thesis by blast
qed

text \<open>
  The seat map of a room of 3 rows of 2 seats, computed by the loops.
\<close>

theorem studio_seats:
  "map (\<lambda>s. (rs_code s, rs_kind s, rs_row s, rs_column s)) (generateSeatMap (studio\<lparr>rows := 3\<rparr>))
     = [(''A1'', Vip, 0, 0), (''A2'', Vip, 0, 1), (''B1'', Vip, 1, 0), (''B2'', Vip, 1, 1),
        (''C1'', Standard, 2, 0), (''C2'', Standard, 2, 1)]"
  by (simp add: generateSeatMap_def studio_def row_loop.simps col_loop.simps make_seat_def
        alphabet_def string_of_nat.simps digit_char_def Let_def)

end
